theory Spec2Isabelle
  imports Main "HOL-Library.Word"
begin

unbundle bit_operations_syntax

section \<open>The generators of dfe/dfe_prng.hpp\<close>

text \<open>
  \<^verbatim>\<open>uint64_t\<close> is a 64-bit word: \<open>+\<close> and \<open>*\<close> wrap around, \<open>push_bit\<close> is
  \<^verbatim>\<open><<\<close>, \<open>drop_bit\<close> is the logical \<^verbatim>\<open>>>\<close> of an unsigned operand.
\<close>

type_synonym u64 = "64 word"

subsection \<open>SplitMix64\<close>

text \<open>The class has the single member \<^verbatim>\<open>uint64_t m_state\<close>.\<close>

record SplitMix64 =
  m_state :: u64

text \<open>\<^verbatim>\<open>constexpr SplitMix64(result_type seed) : m_state(seed) {}\<close>\<close>

definition SplitMix64_ctor :: "u64 \<Rightarrow> SplitMix64" where
  "SplitMix64_ctor seed = \<lparr>m_state = seed\<rparr>"

text \<open>
  \<^verbatim>\<open>operator()\<close>: the compound assignment updates the member first and yields the
  updated value. The result is the returned value paired with the object after the call.
\<close>

definition SplitMix64_call :: "SplitMix64 \<Rightarrow> u64 \<times> SplitMix64" where
  "SplitMix64_call g =
     (let g = g\<lparr>m_state := m_state g + 0x9e3779b97f4a7c15\<rparr>;
          z = m_state g;
          z = (z XOR drop_bit 30 z) * 0xbf58476d1ce4e5b9;
          z = (z XOR drop_bit 27 z) * 0x94d049bb133111eb
      in (z XOR drop_bit 31 z, g))"

text \<open>\<^verbatim>\<open>min()\<close> and \<^verbatim>\<open>max()\<close> are static: they take no object.\<close>

definition SplitMix64_min :: u64 where
  "SplitMix64_min = 0"

definition SplitMix64_max :: u64 where
  "SplitMix64_max = 0xFFFFFFFFFFFFFFFF"

subsection \<open>Xoshiro256StarStar\<close>

text \<open>
  The member \<^verbatim>\<open>uint64_t m_state[4]\<close> is an array of fixed size that the code reads
  and writes at the literal indices 0 to 3 only: one field for each cell.
\<close>

record Xoshiro256StarStar =
  m_state_0 :: u64
  m_state_1 :: u64
  m_state_2 :: u64
  m_state_3 :: u64

text \<open>
  \<^verbatim>\<open>rotate_left(uint64_t x, int k)\<close>. The C++ shifts are defined for amounts from 0
  to 63 only, that is for \<open>0 < k < 64\<close> here; the two callers pass 7 and 45.
\<close>

definition rotate_left :: "u64 \<Rightarrow> int \<Rightarrow> u64" where
  "rotate_left x k = push_bit (nat k) x OR drop_bit (nat (64 - k)) x"

text \<open>
  The constructor: the member initialiser zeroes the array, then the body fills it from
  a local SplitMix64.
\<close>

definition Xoshiro256StarStar_ctor :: "u64 \<Rightarrow> Xoshiro256StarStar" where
  "Xoshiro256StarStar_ctor seed =
     (let g = \<lparr>m_state_0 = 0, m_state_1 = 0, m_state_2 = 0, m_state_3 = 0\<rparr>;
          seq = SplitMix64_ctor seed;
          (v, seq) = SplitMix64_call seq; g = g\<lparr>m_state_0 := v\<rparr>;
          (v, seq) = SplitMix64_call seq; g = g\<lparr>m_state_1 := v\<rparr>;
          (v, seq) = SplitMix64_call seq; g = g\<lparr>m_state_2 := v\<rparr>;
          (v, seq) = SplitMix64_call seq; g = g\<lparr>m_state_3 := v\<rparr>
      in g)"

text \<open>\<^verbatim>\<open>operator()\<close>, one statement for each line of the source.\<close>

definition Xoshiro256StarStar_call :: "Xoshiro256StarStar \<Rightarrow> u64 \<times> Xoshiro256StarStar" where
  "Xoshiro256StarStar_call g =
     (let z = rotate_left (m_state_1 g * 5) 7 * 9;
          t = push_bit 17 (m_state_1 g);
          g = g\<lparr>m_state_2 := m_state_2 g XOR m_state_0 g\<rparr>;
          g = g\<lparr>m_state_3 := m_state_3 g XOR m_state_1 g\<rparr>;
          g = g\<lparr>m_state_1 := m_state_1 g XOR m_state_2 g\<rparr>;
          g = g\<lparr>m_state_0 := m_state_0 g XOR m_state_3 g\<rparr>;
          g = g\<lparr>m_state_2 := m_state_2 g XOR t\<rparr>;
          g = g\<lparr>m_state_3 := rotate_left (m_state_3 g) 45\<rparr>
      in (z, g))"

definition Xoshiro256StarStar_min :: u64 where
  "Xoshiro256StarStar_min = 0"

definition Xoshiro256StarStar_max :: u64 where
  "Xoshiro256StarStar_max = 0xFFFFFFFFFFFFFFFF"

subsection \<open>Calling a generator repeatedly\<close>

text \<open>
  \<open>generate call n g\<close> calls the generator \<open>n\<close> times, as the loops of the unit tests
  do, and gives the outputs in the order of the calls and the generator after the last
  one.
\<close>

fun generate :: "('g \<Rightarrow> u64 \<times> 'g) \<Rightarrow> nat \<Rightarrow> 'g \<Rightarrow> u64 list \<times> 'g" where
  "generate call 0 g = ([], g)"
| "generate call (Suc n) g =
     (let (v, g) = call g; (vs, g) = generate call n g in (v # vs, g))"


text \<open>The state that \<^verbatim>\<open>operator()\<close> leaves fixed: every cell of the array is zero.\<close>

definition Xoshiro256StarStar_zero :: Xoshiro256StarStar where
  "Xoshiro256StarStar_zero = \<lparr>m_state_0 = 0, m_state_1 = 0, m_state_2 = 0, m_state_3 = 0\<rparr>"

text \<open>The array \<^verbatim>\<open>m_state\<close> read as the list of its cells, cell 0 first.\<close>

definition state_words :: "Xoshiro256StarStar \<Rightarrow> u64 list" where
  "state_words g = [m_state_0 g, m_state_1 g, m_state_2 g, m_state_3 g]"

section \<open>Generator objects in memory\<close>

text \<open>
  The member functions once more, with the object they work on where C++ has it: in
  memory, at the address \<^verbatim>\<open>this\<close>. The memory is a store of 64-bit cells; a cell
  that nothing has assigned holds whatever it holds. A SplitMix64 is the one cell
  \<^verbatim>\<open>m_state\<close> at \<open>this\<close>, a Xoshiro256StarStar the four cells
  \<^verbatim>\<open>m_state[i]\<close> at \<open>this + i\<close>. Each function reads and writes the cells that
  the source names, in the order of its statements.
\<close>

type_synonym memory = "nat \<Rightarrow> u64"

definition SplitMix64_ctor_at :: "nat \<Rightarrow> u64 \<Rightarrow> memory \<Rightarrow> memory" where
  "SplitMix64_ctor_at this seed mem = mem(this := seed)"

definition SplitMix64_call_at :: "nat \<Rightarrow> memory \<Rightarrow> u64 \<times> memory" where
  "SplitMix64_call_at this mem =
     (let mem = mem(this := mem this + 0x9e3779b97f4a7c15);
          z = mem this;
          z = (z XOR drop_bit 30 z) * 0xbf58476d1ce4e5b9;
          z = (z XOR drop_bit 27 z) * 0x94d049bb133111eb
      in (z XOR drop_bit 31 z, mem))"

text \<open>
  The constructor of Xoshiro256StarStar: \<^verbatim>\<open>seq\<close> is a local object that the
  constructor alone uses, a value of the function.
\<close>

definition Xoshiro256StarStar_ctor_at :: "nat \<Rightarrow> u64 \<Rightarrow> memory \<Rightarrow> memory" where
  "Xoshiro256StarStar_ctor_at this seed mem =
     (let mem = mem(this + 0 := 0, this + 1 := 0, this + 2 := 0, this + 3 := 0);
          seq = SplitMix64_ctor seed;
          (v, seq) = SplitMix64_call seq; mem = mem(this + 0 := v);
          (v, seq) = SplitMix64_call seq; mem = mem(this + 1 := v);
          (v, seq) = SplitMix64_call seq; mem = mem(this + 2 := v);
          (v, seq) = SplitMix64_call seq; mem = mem(this + 3 := v)
      in mem)"

definition Xoshiro256StarStar_call_at :: "nat \<Rightarrow> memory \<Rightarrow> u64 \<times> memory" where
  "Xoshiro256StarStar_call_at this mem =
     (let z = rotate_left (mem (this + 1) * 5) 7 * 9;
          t = push_bit 17 (mem (this + 1));
          mem = mem(this + 2 := mem (this + 2) XOR mem (this + 0));
          mem = mem(this + 3 := mem (this + 3) XOR mem (this + 1));
          mem = mem(this + 1 := mem (this + 1) XOR mem (this + 2));
          mem = mem(this + 0 := mem (this + 0) XOR mem (this + 3));
          mem = mem(this + 2 := mem (this + 2) XOR t);
          mem = mem(this + 3 := rotate_left (mem (this + 3)) 45)
      in (z, mem))"

text \<open>The object that the memory holds at an address, and the memory with an object put there.\<close>

definition SplitMix64_at :: "nat \<Rightarrow> memory \<Rightarrow> SplitMix64" where
  "SplitMix64_at this mem = \<lparr>m_state = mem this\<rparr>"

definition Xoshiro256StarStar_at :: "nat \<Rightarrow> memory \<Rightarrow> Xoshiro256StarStar" where
  "Xoshiro256StarStar_at this mem =
     \<lparr>m_state_0 = mem (this + 0), m_state_1 = mem (this + 1),
      m_state_2 = mem (this + 2), m_state_3 = mem (this + 3)\<rparr>"

definition Xoshiro256StarStar_put :: "nat \<Rightarrow> Xoshiro256StarStar \<Rightarrow> memory \<Rightarrow> memory" where
  "Xoshiro256StarStar_put this g mem =
     mem(this + 0 := m_state_0 g, this + 1 := m_state_1 g,
         this + 2 := m_state_2 g, this + 3 := m_state_3 g)"

text \<open>
  A program with two generators of one type: both are constructed from the same seed,
  then the first is called \<open>n\<close> times, then the second. It gives the outputs of the
  first, the outputs of the second and the memory at the end.
\<close>

definition two_generators ::
  "(nat \<Rightarrow> u64 \<Rightarrow> memory \<Rightarrow> memory) \<Rightarrow> (nat \<Rightarrow> memory \<Rightarrow> u64 \<times> memory) \<Rightarrow>
   nat \<Rightarrow> nat \<Rightarrow> u64 \<Rightarrow> nat \<Rightarrow> memory \<Rightarrow> u64 list \<times> u64 list \<times> memory" where
  "two_generators ctor_at call_at a1 a2 seed n mem =
     (let mem = ctor_at a1 seed mem;
          mem = ctor_at a2 seed mem;
          (out1, mem) = generate (call_at a1) n mem;
          (out2, mem) = generate (call_at a2) n mem
      in (out1, out2, mem))"

section \<open>The generator program examples/example\_prng\_dieharder.cpp\<close>

text \<open>
  What the program leaves behind: the 64-bit values written to stdout, in order (each
  one is \<^verbatim>\<open>sizeof(uint64_t)\<close> = 8 bytes in the byte order of the platform), and the
  text printed to stderr. A stream takes whatever is written to it.
\<close>

record world =
  stdout :: "u64 list"
  stderr :: string

definition block_size :: u64 where
  "block_size = 1024"

definition sizeof_uint64_t :: u64 where
  "sizeof_uint64_t = 8"

text \<open>\<^verbatim>\<open>fwrite(data, sizeof(uint64_t), count, stdout)\<close>: the first \<open>count\<close> cells.\<close>

definition fwrite :: "u64 list \<Rightarrow> u64 \<Rightarrow> world \<Rightarrow> world" where
  "fwrite data count w = w\<lparr>stdout := stdout w @ take (unat count) data\<rparr>"

text \<open>\<^verbatim>\<open>for (size_t i = 0; i < block_size; ++i) { data[i] = rng(); }\<close>, from \<open>i\<close> on.\<close>

function fill_block :: "('g \<Rightarrow> u64 \<times> 'g) \<Rightarrow> nat \<Rightarrow> u64 list \<Rightarrow> 'g \<Rightarrow> u64 list \<times> 'g" where
  "fill_block call i data rng =
     (if i < unat block_size
      then (let (v, rng) = call rng in fill_block call (Suc i) (data[i := v]) rng)
      else (data, rng))"
  by pat_completeness auto
termination
  by (relation "measure (\<lambda>(call, i, data, rng). unat block_size - i)") auto

text \<open>
  The \<^verbatim>\<open>while (written < bytes)\<close> loop. The counter \<^verbatim>\<open>written\<close> is a
  \<^verbatim>\<open>uint64_t\<close> and wraps around; a loop that never ends is \<open>None\<close>.
\<close>

partial_function (option) write_loop ::
  "('g \<Rightarrow> u64 \<times> 'g) \<Rightarrow> u64 \<Rightarrow> 'g \<Rightarrow> u64 \<Rightarrow> u64 list \<Rightarrow> world \<Rightarrow> world option" where
  "write_loop call bytes rng written data w =
     (if written < bytes
      then (let (data, rng) = fill_block call 0 data rng;
                w = fwrite data block_size w;
                written = written + sizeof_uint64_t * block_size
            in write_loop call bytes rng written data w)
      else Some w)"

text \<open>
  The template \<^verbatim>\<open>write_random_bytes_to_stdout<Rng>\<close>: the type parameter is the
  constructor and the call operator of the generator. The array \<^verbatim>\<open>data\<close> has
  \<^verbatim>\<open>block_size\<close> cells, whose first content C++ leaves open; every cell is
  assigned before it is written out.
\<close>

definition write_random_bytes_to_stdout ::
  "(u64 \<Rightarrow> 'g) \<Rightarrow> ('g \<Rightarrow> u64 \<times> 'g) \<Rightarrow> u64 \<Rightarrow> u64 \<Rightarrow> world \<Rightarrow> world option" where
  "write_random_bytes_to_stdout ctor call seed bytes w =
     (let rng = ctor seed;
          written = 0;
          data = replicate (unat block_size) 0
      in write_loop call bytes rng written data w)"

record RngRegistryEntry =
  name :: string
  func :: "u64 \<Rightarrow> u64 \<Rightarrow> world \<Rightarrow> world option"

definition registry :: "RngRegistryEntry list" where
  "registry =
     [\<lparr>name = ''splitmix64'',
       func = write_random_bytes_to_stdout SplitMix64_ctor SplitMix64_call\<rparr>,
      \<lparr>name = ''xoshiro256**'',
       func = write_random_bytes_to_stdout Xoshiro256StarStar_ctor Xoshiro256StarStar_call\<rparr>]"

text \<open>The two exit statuses of \<^verbatim>\<open><cstdlib>\<close>.\<close>

datatype exit_status = EXIT_SUCCESS | EXIT_FAILURE

text \<open>\<^verbatim>\<open>fprintf(stderr, ...)\<close> with the text already formatted.\<close>

definition fprintf_stderr :: "string \<Rightarrow> world \<Rightarrow> world" where
  "fprintf_stderr s w = w\<lparr>stderr := stderr w @ s\<rparr>"

definition newline :: string where
  "newline = [CHR 0x0A]"

text \<open>The conversion \<^verbatim>\<open>PRIu64\<close>: an unsigned number in decimal.\<close>

function decimal :: "nat \<Rightarrow> string" where
  "decimal n =
     (if n < 10 then [char_of (48 + n)]
      else decimal (n div 10) @ [char_of (48 + n mod 10)])"
  by pat_completeness auto
termination
  by (relation "measure id") auto

text \<open>The loop of the usage message over the registry.\<close>

fun print_available :: "RngRegistryEntry list \<Rightarrow> world \<Rightarrow> world" where
  "print_available [] w = w"
| "print_available (entry # entries) w =
     print_available entries (fprintf_stderr (''  '' @ name entry @ newline) w)"

text \<open>
  The second loop of \<^verbatim>\<open>main\<close> over the registry, with the two statements that
  follow it when no entry has the name.
\<close>

fun run_selected ::
  "RngRegistryEntry list \<Rightarrow> string \<Rightarrow> u64 \<Rightarrow> u64 \<Rightarrow> world \<Rightarrow> (exit_status \<times> world) option" where
  "run_selected [] rng seed bytes w =
     Some (EXIT_SUCCESS,
       fprintf_stderr (''unknown rng '' @ [CHR 0x27] @ rng @ [CHR 0x27] @ newline) w)"
| "run_selected (entry # entries) rng seed bytes w =
     (if name entry = rng
      then (let w = fprintf_stderr (''rng: '' @ rng @ newline) w;
                w = fprintf_stderr (''seed: '' @ decimal (unat seed) @ newline) w;
                w = fprintf_stderr (''bytes: '' @ decimal (unat bytes) @ newline) w
            in case func entry seed bytes w of
                 None \<Rightarrow> None
               | Some w \<Rightarrow> Some (EXIT_SUCCESS, w))
      else run_selected entries rng seed bytes w)"

text \<open>
  \<^verbatim>\<open>main\<close>. The argument vector is \<open>prog # args\<close>, the name of the program and
  the arguments after it (a hosted environment gives a name), so \<^verbatim>\<open>argc\<close> is
  \<open>1 + length args\<close>. \<^verbatim>\<open>strtoull(s, nullptr, 0)\<close> belongs to the C library and
  is a parameter. \<open>None\<close> is a run that never returns.
\<close>

definition main ::
  "(string \<Rightarrow> u64) \<Rightarrow> string \<Rightarrow> string list \<Rightarrow> world \<Rightarrow> (exit_status \<times> world) option" where
  "main strtoull prog args w =
     (let argc = 1 + int (length args) in
      if argc < 3 \<or> 4 < argc
      then (let w = fprintf_stderr (''usage:'' @ newline) w;
                w = fprintf_stderr (''  '' @ prog @ '' name mebibytes [seed]'' @ newline) w;
                w = fprintf_stderr newline w;
                w = fprintf_stderr (''available rngs:'' @ newline) w;
                w = print_available registry w
            in Some (EXIT_FAILURE, w))
      else (let rng = args ! 0;
                seed = 1234567890;
                bytes = 1024 * 1024 * strtoull (args ! 1);
                seed = (if argc = 4 then strtoull (args ! 2) else seed)
            in run_selected registry rng seed bytes w))"

section \<open>The specification's description of the two steps\<close>

text \<open>
  The steps as the specification words them, on natural numbers: an addition or a
  multiplication modulo \<open>2 ^ 64\<close>, a logical right shift as a division by a power of
  two, a left shift as a multiplication modulo \<open>2 ^ 64\<close>. Each gives the returned value
  and the state after the call.
\<close>

definition spec_splitmix64_next :: "nat \<Rightarrow> nat \<times> nat" where
  "spec_splitmix64_next s =
     (let s = (s + 0x9e3779b97f4a7c15) mod 2 ^ 64;
          z = s;
          z = ((z XOR (z div 2 ^ 30)) * 0xbf58476d1ce4e5b9) mod 2 ^ 64;
          z = ((z XOR (z div 2 ^ 27)) * 0x94d049bb133111eb) mod 2 ^ 64;
          z = z XOR (z div 2 ^ 31)
      in (z, s))"

definition spec_rotate_left :: "nat \<Rightarrow> nat \<Rightarrow> nat" where
  "spec_rotate_left x k = ((x * 2 ^ k) mod 2 ^ 64) OR (x div 2 ^ (64 - k))"

definition spec_xoshiro256_next :: "nat list \<Rightarrow> nat \<times> nat list" where
  "spec_xoshiro256_next state =
     (let z = (spec_rotate_left ((state ! 1 * 5) mod 2 ^ 64) 7 * 9) mod 2 ^ 64;
          t = (state ! 1 * 2 ^ 17) mod 2 ^ 64;
          state = state[2 := state ! 2 XOR state ! 0];
          state = state[3 := state ! 3 XOR state ! 1];
          state = state[1 := state ! 1 XOR state ! 2];
          state = state[0 := state ! 0 XOR state ! 3];
          state = state[2 := state ! 2 XOR t];
          state = state[3 := spec_rotate_left (state ! 3) 45]
      in (z, state))"

section \<open>The inverse of the xoshiro256** state transition\<close>

text \<open>
  \<open>x \<mapsto> x XOR (x << 17)\<close> is undone by four terms of the geometric series, since a
  shift by 68 clears a 64-bit word.
\<close>

definition unshift17 :: "u64 \<Rightarrow> u64" where
  "unshift17 y = y XOR push_bit 17 y XOR push_bit 34 y XOR push_bit 51 y"

definition Xoshiro256StarStar_back :: "Xoshiro256StarStar \<Rightarrow> Xoshiro256StarStar" where
  "Xoshiro256StarStar_back g =
     (let s3a = rotate_left (m_state_3 g) 19;
          s0 = m_state_0 g XOR s3a;
          s1 = unshift17 (m_state_1 g XOR m_state_2 g);
          s2a = m_state_2 g XOR push_bit 17 s1
      in \<lparr>m_state_0 = s0, m_state_1 = s1, m_state_2 = s2a XOR s0, m_state_3 = s3a XOR s1\<rparr>)"

section \<open>Words as numbers\<close>

lemma unat_add64: "unat (a + b) = (unat a + unat b) mod 2 ^ 64" for a b :: u64
  by (simp add: unat_word_ariths)

lemma unat_mul64: "unat (a * b) = (unat a * unat b) mod 2 ^ 64" for a b :: u64
  by (simp add: unat_word_ariths)

lemma unat_xor64: "unat (a XOR b) = unat a XOR unat b" for a b :: u64
  by (simp only: unsigned_xor_eq)

lemma unat_or64: "unat (a OR b) = unat a OR unat b" for a b :: u64
  by (simp only: unsigned_or_eq)

lemma unat_shr64: "unat (drop_bit n z) = unat z div 2 ^ n" for z :: u64
  unfolding unat_drop_bit_eq by (simp add: drop_bit_eq_div)

lemma unat_shl64: "unat (push_bit n z) = (unat z * 2 ^ n) mod 2 ^ 64" for z :: u64
  unfolding unsigned_push_bit_eq by (simp add: take_bit_eq_mod push_bit_eq_mult)

lemma unat_rotate_left:
  assumes "0 \<le> k"
  shows "unat (rotate_left x k) = spec_rotate_left (unat x) (nat k)"
proof -
  from assms have "nat (64 - k) = 64 - nat k" by linarith
  then show ?thesis
    by (simp add: rotate_left_def spec_rotate_left_def unat_or64 unat_shl64 unat_shr64)
qed

lemma list_update4:
  "[a, b, c, d][0 := x] = [x, b, c, d]"
  "[a, b, c, d][1 := x] = [a, x, c, d]"
  "[a, b, c, d][2 := x] = [a, b, x, d]"
  "[a, b, c, d][3 := x] = [a, b, c, x]"
  by (simp_all add: numeral_2_eq_2 numeral_3_eq_3)

section \<open>SplitMix64\<close>

text \<open>
  Claim C1: for every state \<open>s\<close>, one call of SplitMix64 sets the state to
  \<open>s + 0x9e3779b97f4a7c15\<close> modulo \<open>2 ^ 64\<close> and returns the three avalanche rounds
  of that value, with logical shifts and multiplications modulo \<open>2 ^ 64\<close>: read as
  numbers, the returned value and the new state of the code are those of the
  specification's arithmetic.
\<close>

theorem SplitMix64_call_spec:
  "unat (fst (SplitMix64_call g)) = fst (spec_splitmix64_next (unat (m_state g))) \<and>
   unat (m_state (snd (SplitMix64_call g))) = snd (spec_splitmix64_next (unat (m_state g)))"
  by (simp add: SplitMix64_call_def spec_splitmix64_next_def Let_def
      unat_xor64 unat_shr64 unat_mul64 unat_add64)

section \<open>Xoshiro256StarStar\<close>

text \<open>
  Claim C2: for every state of four words, one call of Xoshiro256StarStar returns
  \<open>rotate_left (state[1] * 5, 7) * 9\<close> of the state before the call and updates the
  four words by the six assignments of the specification, in their order, all modulo
  \<open>2 ^ 64\<close>.
\<close>

theorem Xoshiro256StarStar_call_spec:
  "unat (fst (Xoshiro256StarStar_call g)) =
     fst (spec_xoshiro256_next (map unat (state_words g))) \<and>
   map unat (state_words (snd (Xoshiro256StarStar_call g))) =
     snd (spec_xoshiro256_next (map unat (state_words g)))"
  by (simp add: Xoshiro256StarStar_call_def spec_xoshiro256_next_def state_words_def Let_def
      unat_rotate_left unat_xor64 unat_shl64 unat_mul64 list_update4)

text \<open>
  Claim C3: constructing a Xoshiro256StarStar from a seed gives the state whose words
  0, 1, 2, 3 are the first four outputs, in order, of a SplitMix64 constructed from the
  same seed.
\<close>

theorem Xoshiro256StarStar_ctor_seed_expansion:
  "state_words (Xoshiro256StarStar_ctor S) = fst (generate SplitMix64_call 4 (SplitMix64_ctor S))"
  by (simp add: Xoshiro256StarStar_ctor_def state_words_def Let_def split_beta eval_nat_numeral)

text \<open>
  The model on the published reference values of SplitMix64 for the seed 0, which are
  also the state that xoshiro256** starts from.
\<close>

lemma Xoshiro256StarStar_ctor_0:
  "state_words (Xoshiro256StarStar_ctor 0) =
     [0xE220A8397B1DCDAF, 0x6E789E6AA1B965F4, 0x06C45D188009454F, 0xF88BB8A8724C81EC]"
  by (simp add: Xoshiro256StarStar_ctor_def SplitMix64_ctor_def SplitMix64_call_def
      state_words_def Let_def)

subsection \<open>Two generators with the same seed\<close>

lemma SplitMix64_call_at_eq:
  "SplitMix64_call_at this mem =
     (fst (SplitMix64_call (SplitMix64_at this mem)),
      mem(this := m_state (snd (SplitMix64_call (SplitMix64_at this mem)))))"
  by (simp add: SplitMix64_call_at_def SplitMix64_call_def SplitMix64_at_def Let_def)

lemma generate_SplitMix64_call_at:
  "generate (SplitMix64_call_at this) n mem =
     (fst (generate SplitMix64_call n (SplitMix64_at this mem)),
      mem(this := m_state (snd (generate SplitMix64_call n (SplitMix64_at this mem)))))"
proof (induction n arbitrary: mem)
  case 0
  show ?case by (simp add: SplitMix64_at_def)
next
  case (Suc n)
  define g where "g = SplitMix64_at this mem"
  define mem' where "mem' = mem(this := m_state (snd (SplitMix64_call g)))"
  have c: "SplitMix64_call_at this mem = (fst (SplitMix64_call g), mem')"
    unfolding g_def mem'_def by (rule SplitMix64_call_at_eq)
  have g': "SplitMix64_at this mem' = snd (SplitMix64_call g)"
    by (simp add: SplitMix64_at_def mem'_def)
  have "generate (SplitMix64_call_at this) (Suc n) mem =
      (fst (SplitMix64_call g) # fst (generate (SplitMix64_call_at this) n mem'),
       snd (generate (SplitMix64_call_at this) n mem'))"
    by (simp add: c split_beta)
  also have "\<dots> =
      (fst (SplitMix64_call g) # fst (generate SplitMix64_call n (snd (SplitMix64_call g))),
       mem'(this := m_state (snd (generate SplitMix64_call n (snd (SplitMix64_call g))))))"
    by (simp only: Suc.IH [of mem'] g' fst_conv snd_conv)
  also have "\<dots> =
      (fst (generate SplitMix64_call (Suc n) g),
       mem(this := m_state (snd (generate SplitMix64_call (Suc n) g))))"
    by (simp add: split_beta mem'_def)
  finally show ?case
    unfolding g_def .
qed

lemma Xoshiro256StarStar_at_put [simp]:
  "Xoshiro256StarStar_at this (Xoshiro256StarStar_put this g mem) = g"
  by (simp add: Xoshiro256StarStar_at_def Xoshiro256StarStar_put_def)

lemma Xoshiro256StarStar_put_put [simp]:
  "Xoshiro256StarStar_put this g (Xoshiro256StarStar_put this g' mem) =
     Xoshiro256StarStar_put this g mem"
  by (auto simp add: Xoshiro256StarStar_put_def fun_eq_iff)

lemma Xoshiro256StarStar_put_at [simp]:
  "Xoshiro256StarStar_put this (Xoshiro256StarStar_at this mem) mem = mem"
  by (auto simp add: Xoshiro256StarStar_put_def Xoshiro256StarStar_at_def fun_eq_iff)

lemma Xoshiro256StarStar_at_put_other:
  "a + 4 \<le> b \<or> b + 4 \<le> a \<Longrightarrow>
   Xoshiro256StarStar_at b (Xoshiro256StarStar_put a g mem) = Xoshiro256StarStar_at b mem"
  by (auto simp add: Xoshiro256StarStar_at_def Xoshiro256StarStar_put_def)

lemma Xoshiro256StarStar_ctor_at_eq:
  "Xoshiro256StarStar_ctor_at this seed mem =
     Xoshiro256StarStar_put this (Xoshiro256StarStar_ctor seed) mem"
  by (auto simp add: Xoshiro256StarStar_ctor_at_def Xoshiro256StarStar_ctor_def
      Xoshiro256StarStar_put_def Let_def split_beta fun_eq_iff)

lemma Xoshiro256StarStar_call_at_eq:
  "Xoshiro256StarStar_call_at this mem =
     (fst (Xoshiro256StarStar_call (Xoshiro256StarStar_at this mem)),
      Xoshiro256StarStar_put this (snd (Xoshiro256StarStar_call (Xoshiro256StarStar_at this mem))) mem)"
  by (auto simp add: Xoshiro256StarStar_call_at_def Xoshiro256StarStar_call_def
      Xoshiro256StarStar_at_def Xoshiro256StarStar_put_def Let_def fun_eq_iff)

lemma generate_Xoshiro256StarStar_call_at:
  "generate (Xoshiro256StarStar_call_at this) n mem =
     (fst (generate Xoshiro256StarStar_call n (Xoshiro256StarStar_at this mem)),
      Xoshiro256StarStar_put this
        (snd (generate Xoshiro256StarStar_call n (Xoshiro256StarStar_at this mem))) mem)"
proof (induction n arbitrary: mem)
  case 0
  show ?case by simp
next
  case (Suc n)
  define g where "g = Xoshiro256StarStar_at this mem"
  define mem' where "mem' = Xoshiro256StarStar_put this (snd (Xoshiro256StarStar_call g)) mem"
  have c: "Xoshiro256StarStar_call_at this mem = (fst (Xoshiro256StarStar_call g), mem')"
    unfolding g_def mem'_def by (rule Xoshiro256StarStar_call_at_eq)
  have g': "Xoshiro256StarStar_at this mem' = snd (Xoshiro256StarStar_call g)"
    by (simp add: mem'_def)
  have "generate (Xoshiro256StarStar_call_at this) (Suc n) mem =
      (fst (Xoshiro256StarStar_call g) # fst (generate (Xoshiro256StarStar_call_at this) n mem'),
       snd (generate (Xoshiro256StarStar_call_at this) n mem'))"
    by (simp add: c split_beta)
  also have "\<dots> =
      (fst (Xoshiro256StarStar_call g) #
         fst (generate Xoshiro256StarStar_call n (snd (Xoshiro256StarStar_call g))),
       Xoshiro256StarStar_put this
         (snd (generate Xoshiro256StarStar_call n (snd (Xoshiro256StarStar_call g)))) mem')"
    by (simp only: Suc.IH [of mem'] g' fst_conv snd_conv)
  also have "\<dots> =
      (fst (generate Xoshiro256StarStar_call (Suc n) g),
       Xoshiro256StarStar_put this (snd (generate Xoshiro256StarStar_call (Suc n) g)) mem)"
    by (simp add: split_beta mem'_def)
  finally show ?case
    unfolding g_def .
qed

text \<open>
  Claim C4: two generators of the same type, each constructed from the seed \<open>S\<close> and
  each called \<open>n\<close> times, give the same outputs and end in the same state, for
  SplitMix64 and for Xoshiro256StarStar: the two objects lie apart in one memory, whose
  other cells hold anything, and the outputs and the final state are those that the seed
  and \<open>n\<close> alone determine.
\<close>

theorem generators_deterministic:
  assumes "a1 \<noteq> a2" and "b1 + 4 \<le> b2 \<or> b2 + 4 \<le> b1"
  shows "(case two_generators SplitMix64_ctor_at SplitMix64_call_at a1 a2 S n mem of
            (out1, out2, mem') \<Rightarrow>
              out1 = out2 \<and> SplitMix64_at a1 mem' = SplitMix64_at a2 mem' \<and>
              (out1, SplitMix64_at a1 mem') = generate SplitMix64_call n (SplitMix64_ctor S)) \<and>
         (case two_generators Xoshiro256StarStar_ctor_at Xoshiro256StarStar_call_at b1 b2 S n mem of
            (out1, out2, mem') \<Rightarrow>
              out1 = out2 \<and> Xoshiro256StarStar_at b1 mem' = Xoshiro256StarStar_at b2 mem' \<and>
              (out1, Xoshiro256StarStar_at b1 mem') =
                generate Xoshiro256StarStar_call n (Xoshiro256StarStar_ctor S))"
proof
  have s: "SplitMix64_at a (mem(a := v)) = \<lparr>m_state = v\<rparr>" for a v and mem :: memory
    by (simp add: SplitMix64_at_def)
  have e: "\<lparr>m_state = m_state g\<rparr> = g" for g :: SplitMix64
    by (cases g) simp
  show "case two_generators SplitMix64_ctor_at SplitMix64_call_at a1 a2 S n mem of
      (out1, out2, mem') \<Rightarrow>
        out1 = out2 \<and> SplitMix64_at a1 mem' = SplitMix64_at a2 mem' \<and>
        (out1, SplitMix64_at a1 mem') = generate SplitMix64_call n (SplitMix64_ctor S)"
    using assms(1)
    by (simp add: two_generators_def SplitMix64_ctor_at_def generate_SplitMix64_call_at
        Let_def s e SplitMix64_ctor_def SplitMix64_at_def)
  have other: "b2 + 4 \<le> b1 \<or> b1 + 4 \<le> b2"
    using assms(2) by auto
  show "case two_generators Xoshiro256StarStar_ctor_at Xoshiro256StarStar_call_at b1 b2 S n mem of
      (out1, out2, mem') \<Rightarrow>
        out1 = out2 \<and> Xoshiro256StarStar_at b1 mem' = Xoshiro256StarStar_at b2 mem' \<and>
        (out1, Xoshiro256StarStar_at b1 mem') =
          generate Xoshiro256StarStar_call n (Xoshiro256StarStar_ctor S)"
    by (simp add: two_generators_def Xoshiro256StarStar_ctor_at_eq
        generate_Xoshiro256StarStar_call_at Let_def
        Xoshiro256StarStar_at_put_other [OF assms(2)] Xoshiro256StarStar_at_put_other [OF other])
qed

theorem generators_deterministic_witness:
  "(0::nat) \<noteq> 1 \<and> ((0::nat) + 4 \<le> 4 \<or> (4::nat) + 4 \<le> 0) \<and>
   fst (two_generators SplitMix64_ctor_at SplitMix64_call_at 0 1 123 3 (\<lambda>a. 7)) =
     [13032462758197477675, 18015028434894305148, 15857969311440292840] \<and>
   fst (snd (two_generators SplitMix64_ctor_at SplitMix64_call_at 0 1 123 3 (\<lambda>a. 7))) =
     [13032462758197477675, 18015028434894305148, 15857969311440292840] \<and>
   fst (two_generators Xoshiro256StarStar_ctor_at Xoshiro256StarStar_call_at 0 4 123 3 (\<lambda>a. 7)) =
     [3628370374969813497, 17885451940711451998, 8622752019489400367] \<and>
   fst (snd (two_generators Xoshiro256StarStar_ctor_at Xoshiro256StarStar_call_at 0 4 123 3
     (\<lambda>a. 7))) =
     [3628370374969813497, 17885451940711451998, 8622752019489400367]"
proof -
  have sm: "generate SplitMix64_call 3 (SplitMix64_ctor 123) =
      ([13032462758197477675, 18015028434894305148, 15857969311440292840],
       \<lparr>m_state = 15755400384260043962\<rparr>)"
    by (subst numeral_3_eq_3) (simp add: SplitMix64_call_def SplitMix64_ctor_def Let_def)
  have xo: "generate Xoshiro256StarStar_call 3 (Xoshiro256StarStar_ctor 123) =
      ([3628370374969813497, 17885451940711451998, 8622752019489400367],
       \<lparr>m_state_0 = 7348163903636499974, m_state_1 = 17259001085214579638,
        m_state_2 = 8310843843496713058, m_state_3 = 9295990507084743661\<rparr>)"
    by (subst numeral_3_eq_3)
      (simp add: Xoshiro256StarStar_call_def Xoshiro256StarStar_ctor_def
        SplitMix64_call_def SplitMix64_ctor_def rotate_left_def Let_def)
  show ?thesis
    using generators_deterministic
      [where ?a1.0 = 0 and ?a2.0 = 1 and ?b1.0 = 0 and ?b2.0 = 4 and S = 123 and n = 3
        and mem = "\<lambda>a. 7"]
    by (auto simp add: sm xo split_beta)
qed

text \<open>
  Claim C5: for both generators \<open>min()\<close> is 0 and \<open>max()\<close> is \<open>2 ^ 64 - 1\<close>; they
  are constants that take no generator.
\<close>

theorem min_max_constants:
  "unat SplitMix64_min = 0 \<and> unat SplitMix64_max = 2 ^ 64 - 1 \<and>
   unat Xoshiro256StarStar_min = 0 \<and> unat Xoshiro256StarStar_max = 2 ^ 64 - 1"
  by (simp add: SplitMix64_min_def SplitMix64_max_def
      Xoshiro256StarStar_min_def Xoshiro256StarStar_max_def)

lemma rotate_left_inverse:
  "0 < k \<Longrightarrow> k < 64 \<Longrightarrow> rotate_left (rotate_left x k) (64 - k) = x"
  unfolding rotate_left_def
  by (rule bit_word_eqI) (auto simp add: bit_simps)

text \<open>
  Claim C6: for every word \<open>x\<close> and every \<open>k\<close> with \<open>0 < k < 64\<close>, where
  \<open>rotate_left (x, k)\<close> is \<open>(x << k) | (x >> (64 - k))\<close> on 64 bits, rotating \<open>x\<close>
  left by \<open>k\<close> and then by \<open>64 - k\<close> gives \<open>x\<close> again.
\<close>

theorem rotate_left_round_trip:
  "0 < k \<Longrightarrow> k < 64 \<Longrightarrow>
   unat (rotate_left x k) = spec_rotate_left (unat x) (nat k) \<and>
   rotate_left (rotate_left x k) (64 - k) = x"
  by (simp add: unat_rotate_left rotate_left_inverse)

theorem rotate_left_round_trip_witness:
  "(0::int) < 7 \<and> (7::int) < 64 \<and>
   rotate_left 0x0123456789ABCDEF 7 = 0x91A2B3C4D5E6F780 \<and>
   rotate_left 0x91A2B3C4D5E6F780 (64 - 7) = 0x0123456789ABCDEF"
proof -
  have "rotate_left 0x0123456789ABCDEF 7 = 0x91A2B3C4D5E6F780"
    by (simp add: rotate_left_def)
  then show ?thesis
    using rotate_left_round_trip [of 7 "0x0123456789ABCDEF"] by simp
qed

lemma Xoshiro256StarStar_call_zero:
  "Xoshiro256StarStar_call Xoshiro256StarStar_zero = (0, Xoshiro256StarStar_zero)"
  by (simp add: Xoshiro256StarStar_call_def Xoshiro256StarStar_zero_def rotate_left_def Let_def)

text \<open>
  Claim C7: from the all-zero state, every call of Xoshiro256StarStar returns 0 and
  leaves the state all-zero, whatever the number of calls.
\<close>

theorem Xoshiro256StarStar_zero_forever:
  "generate Xoshiro256StarStar_call n
     \<lparr>m_state_0 = 0, m_state_1 = 0, m_state_2 = 0, m_state_3 = 0\<rparr> =
   (replicate n 0, \<lparr>m_state_0 = 0, m_state_1 = 0, m_state_2 = 0, m_state_3 = 0\<rparr>)"
proof (induction n)
  case 0
  show ?case by simp
next
  case (Suc n)
  then show ?case
    using Xoshiro256StarStar_call_zero by (simp add: Xoshiro256StarStar_zero_def)
qed

subsection \<open>The state transition is a bijection\<close>

lemma unshift17_left: "unshift17 (x XOR push_bit 17 x) = x"
  unfolding unshift17_def
  by (rule bit_word_eqI) (auto simp add: bit_simps)

lemma unshift17_right: "unshift17 y XOR push_bit 17 (unshift17 y) = y"
  unfolding unshift17_def
  by (rule bit_word_eqI) (auto simp add: bit_simps)

lemma Xoshiro256StarStar_call_state:
  "snd (Xoshiro256StarStar_call \<lparr>m_state_0 = a, m_state_1 = b, m_state_2 = c, m_state_3 = d\<rparr>) =
     \<lparr>m_state_0 = a XOR (d XOR b), m_state_1 = b XOR (c XOR a),
      m_state_2 = (c XOR a) XOR push_bit 17 b, m_state_3 = rotate_left (d XOR b) 45\<rparr>"
  by (simp add: Xoshiro256StarStar_call_def Let_def)

lemma xor_mix:
  "(b XOR (c XOR a)) XOR ((c XOR a) XOR push_bit 17 b) = b XOR push_bit 17 b"
  for a b c :: u64
  by (simp add: ac_simps)

lemma Xoshiro256StarStar_back_call:
  "Xoshiro256StarStar_back (snd (Xoshiro256StarStar_call g)) = g"
proof (cases g)
  case (fields a b c d)
  have r: "rotate_left (rotate_left (d XOR b) 45) 19 = d XOR b"
    using rotate_left_inverse [of 45 "d XOR b"] by simp
  have u: "unshift17 ((b XOR (c XOR a)) XOR ((c XOR a) XOR push_bit 17 b)) = b"
    by (simp only: xor_mix unshift17_left)
  have c0: "(a XOR (d XOR b)) XOR (d XOR b) = a"
    by (simp add: ac_simps)
  have c2: "(((c XOR a) XOR push_bit 17 b) XOR push_bit 17 b) XOR a = c"
    by (simp add: ac_simps)
  have c3: "(d XOR b) XOR b = d"
    by (simp add: ac_simps)
  show ?thesis
    unfolding fields Xoshiro256StarStar_call_state Xoshiro256StarStar_back_def
    by (simp add: Let_def r u c0 c2 c3 del: push_bit_xor)
qed

lemma Xoshiro256StarStar_call_back:
  "snd (Xoshiro256StarStar_call (Xoshiro256StarStar_back g)) = g"
proof (cases g)
  case (fields a b c d)
  define s3a where "s3a = rotate_left d 19"
  define s1 where "s1 = unshift17 (b XOR c)"
  have r: "rotate_left s3a 45 = d"
    unfolding s3a_def using rotate_left_inverse [of 19 d] by simp
  have u: "s1 XOR push_bit 17 s1 = b XOR c"
    unfolding s1_def by (rule unshift17_right)
  have bk: "Xoshiro256StarStar_back
      \<lparr>m_state_0 = a, m_state_1 = b, m_state_2 = c, m_state_3 = d\<rparr> =
    \<lparr>m_state_0 = a XOR s3a, m_state_1 = s1,
     m_state_2 = (c XOR push_bit 17 s1) XOR (a XOR s3a), m_state_3 = s3a XOR s1\<rparr>"
    unfolding Xoshiro256StarStar_back_def s3a_def s1_def by (simp add: Let_def)
  have c1: "s1 XOR (((c XOR push_bit 17 s1) XOR (a XOR s3a)) XOR (a XOR s3a)) = b"
  proof -
    have "s1 XOR (((c XOR push_bit 17 s1) XOR (a XOR s3a)) XOR (a XOR s3a))
        = (s1 XOR push_bit 17 s1) XOR c"
      by (simp add: ac_simps)
    also have "\<dots> = b"
      unfolding u by (simp add: ac_simps)
    finally show ?thesis .
  qed
  have c2: "(((c XOR push_bit 17 s1) XOR (a XOR s3a)) XOR (a XOR s3a)) XOR push_bit 17 s1 = c"
    by (simp add: ac_simps)
  have c3: "(s3a XOR s1) XOR s1 = s3a"
    by (simp add: ac_simps)
  show ?thesis
    unfolding fields bk Xoshiro256StarStar_call_state
    by (simp only: c1 c2 c3 r) (simp add: ac_simps)
qed

lemma Xoshiro256StarStar_call_nonzero:
  assumes "g \<noteq> Xoshiro256StarStar_zero"
  shows "snd (Xoshiro256StarStar_call g) \<noteq> Xoshiro256StarStar_zero"
proof
  assume "snd (Xoshiro256StarStar_call g) = Xoshiro256StarStar_zero"
  then have "snd (Xoshiro256StarStar_call g) =
      snd (Xoshiro256StarStar_call Xoshiro256StarStar_zero)"
    by (simp add: Xoshiro256StarStar_call_zero)
  then have "Xoshiro256StarStar_back (snd (Xoshiro256StarStar_call g)) =
      Xoshiro256StarStar_back (snd (Xoshiro256StarStar_call Xoshiro256StarStar_zero))"
    by (rule arg_cong)
  then have "g = Xoshiro256StarStar_zero"
    by (simp only: Xoshiro256StarStar_back_call)
  with assms show False by simp
qed

lemma generate_nonzero:
  "g \<noteq> Xoshiro256StarStar_zero \<Longrightarrow>
   snd (generate Xoshiro256StarStar_call n g) \<noteq> Xoshiro256StarStar_zero"
proof (induction n arbitrary: g)
  case 0
  then show ?case by simp
next
  case (Suc n)
  from Suc.prems have "snd (Xoshiro256StarStar_call g) \<noteq> Xoshiro256StarStar_zero"
    by (rule Xoshiro256StarStar_call_nonzero)
  then have "snd (generate Xoshiro256StarStar_call n (snd (Xoshiro256StarStar_call g))) \<noteq>
      Xoshiro256StarStar_zero"
    by (rule Suc.IH)
  then show ?case by (simp add: split_beta)
qed

text \<open>
  Claim C9: the state transition of one call of Xoshiro256StarStar is a bijection on the
  states of four words; a state that is not all-zero is therefore not all-zero after any
  number of calls.
\<close>

theorem Xoshiro256StarStar_state_bijection:
  "bij (\<lambda>g. snd (Xoshiro256StarStar_call g)) \<and>
   (g \<noteq> Xoshiro256StarStar_zero \<longrightarrow>
      snd (generate Xoshiro256StarStar_call n g) \<noteq> Xoshiro256StarStar_zero)"
proof
  show "bij (\<lambda>g. snd (Xoshiro256StarStar_call g))"
    by (rule bij_betw_byWitness [where f' = Xoshiro256StarStar_back])
      (simp_all add: Xoshiro256StarStar_back_call Xoshiro256StarStar_call_back)
  show "g \<noteq> Xoshiro256StarStar_zero \<longrightarrow>
      snd (generate Xoshiro256StarStar_call n g) \<noteq> Xoshiro256StarStar_zero"
    by (simp add: generate_nonzero)
qed

theorem Xoshiro256StarStar_state_bijection_witness:
  "\<lparr>m_state_0 = 1, m_state_1 = 0, m_state_2 = 0, m_state_3 = 0\<rparr> \<noteq> Xoshiro256StarStar_zero \<and>
   snd (generate Xoshiro256StarStar_call 2
     \<lparr>m_state_0 = 1, m_state_1 = 0, m_state_2 = 0, m_state_3 = 0\<rparr>) \<noteq> Xoshiro256StarStar_zero"
  using Xoshiro256StarStar_state_bijection
    [of "\<lparr>m_state_0 = 1, m_state_1 = 0, m_state_2 = 0, m_state_3 = 0\<rparr>" 2]
  by (simp add: Xoshiro256StarStar_zero_def)

section \<open>The byte dump\<close>

declare fill_block.simps [simp del]

lemma length_generate: "length (fst (generate call n g)) = n"
  by (induction n arbitrary: g) (simp_all add: split_beta)

lemma generate_add:
  "generate call (m + n) g =
     (fst (generate call m g) @ fst (generate call n (snd (generate call m g))),
      snd (generate call n (snd (generate call m g))))"
  by (induction m arbitrary: g) (simp_all add: split_beta)

text \<open>The inner loop assigns the next 1024 outputs of the generator to the cells.\<close>

lemma fill_block_generate:
  "i \<le> 1024 \<Longrightarrow> length data = 1024 \<Longrightarrow>
   fill_block call i data g =
     (take i data @ fst (generate call (1024 - i) g), snd (generate call (1024 - i) g))"
proof (induction call i data g rule: fill_block.induct)
  case (1 call i data rng)
  show ?case
  proof (cases "i < 1024")
    case True
    obtain v rng' where c: "call rng = (v, rng')" by (cases "call rng")
    have s: "1024 - i = Suc (1024 - Suc i)" using True by simp
    have t: "take (Suc i) (data[i := v]) = take i data @ [v]"
      using True "1.prems" by (simp add: take_Suc_conv_app_nth)
    have "fill_block call (Suc i) (data[i := v]) rng' =
        (take (Suc i) (data[i := v]) @ fst (generate call (1024 - Suc i) rng'),
         snd (generate call (1024 - Suc i) rng'))"
      using "1.IH" [of "(v, rng')" v rng'] True c "1.prems" by (simp add: block_size_def)
    moreover have "generate call (1024 - i) rng =
        (v # fst (generate call (1024 - Suc i) rng'), snd (generate call (1024 - Suc i) rng'))"
      by (subst s) (simp add: c split_beta)
    ultimately show ?thesis
      using True c by (subst fill_block.simps) (simp add: block_size_def t)
  next
    case False
    with "1.prems" have "i = 1024" by simp
    then show ?thesis
      using "1.prems" by (subst fill_block.simps) (simp add: block_size_def)
  qed
qed

lemma fill_block_0:
  "length data = 1024 \<Longrightarrow>
   fill_block call 0 data g = (fst (generate call 1024 g), snd (generate call 1024 g))"
  using fill_block_generate [of 0 data call g] by simp

lemma blocks_step:
  fixes B W k :: nat
  assumes "W < B" and "Suc k = (B - W + 8191) div 8192"
  shows "k = (B - (W + 8192) + 8191) div 8192"
proof (cases "B - W < 8192")
  case True
  then have "B - (W + 8192) = 0" by simp
  moreover have "(B - W + 8191) div 8192 = 1"
    using True assms(1) by (simp add: div_eq_dividend_iff Suc_le_eq div_nat_eqI)
  ultimately show ?thesis using assms(2) by simp
next
  case False
  then have "B - W + 8191 = (B - (W + 8192) + 8191) + 8192" by simp
  then have "(B - W + 8191) div 8192 = Suc ((B - (W + 8192) + 8191) div 8192)"
    by (simp only: div_add_self2)
  with assms(2) show ?thesis by simp
qed

lemma blocks_bounds:
  fixes b :: nat
  shows "b \<le> 8192 * ((b + 8191) div 8192)" and "8192 * ((b + 8191) div 8192) < b + 8192"
proof -
  have "8192 * ((b + 8191) div 8192) + (b + 8191) mod 8192 = b + 8191"
    by (rule mult_div_mod_eq)
  moreover have "(b + 8191) mod 8192 < 8192"
    by simp
  ultimately show "b \<le> 8192 * ((b + 8191) div 8192)"
    and "8192 * ((b + 8191) div 8192) < b + 8192"
    by linarith+
qed

text \<open>
  When the counter cannot wrap around, the loop ends after as many blocks as it takes
  to reach \<open>bytes\<close>.
\<close>

lemma write_loop_blocks:
  "unat bytes \<le> 2 ^ 64 - 8192 \<Longrightarrow> length data = 1024 \<Longrightarrow>
   k = (unat bytes - unat written + 8191) div 8192 \<Longrightarrow>
   write_loop call bytes g written data w =
     Some (w\<lparr>stdout := stdout w @ fst (generate call (1024 * k) g)\<rparr>)"
proof (induction k arbitrary: g written data w)
  case 0
  then have "unat bytes \<le> unat written" by simp
  then have "\<not> written < bytes" by (simp add: word_less_nat_alt)
  then show ?case by (subst write_loop.simps) simp
next
  case (Suc k)
  have lt: "unat written < unat bytes"
  proof (rule ccontr)
    assume "\<not> unat written < unat bytes"
    then have "unat bytes - unat written = 0" by simp
    with Suc.prems(3) show False by simp
  qed
  then have wb: "written < bytes" by (simp add: word_less_nat_alt)
  define written' where "written' = written + sizeof_uint64_t * block_size"
  have u: "unat written' = unat written + 8192"
    unfolding written'_def sizeof_uint64_t_def block_size_def
    using lt Suc.prems(1) by (simp add: unat_word_ariths)
  define data' where "data' = fst (generate call 1024 g)"
  define g' where "g' = snd (generate call 1024 g)"
  have ld: "length data' = 1024" unfolding data'_def by (rule length_generate)
  have k: "k = (unat bytes - unat written' + 8191) div 8192"
    unfolding u using lt Suc.prems(3) by (rule blocks_step)
  have ih: "write_loop call bytes g' written' data' (fwrite data' block_size w) =
     Some ((fwrite data' block_size w)
       \<lparr>stdout := stdout (fwrite data' block_size w) @ fst (generate call (1024 * k) g')\<rparr>)"
    using Suc.prems(1) ld k by (rule Suc.IH)
  have g: "generate call (1024 + 1024 * k) g =
     (data' @ fst (generate call (1024 * k) g'), snd (generate call (1024 * k) g'))"
    unfolding data'_def g'_def by (rule generate_add)
  have "write_loop call bytes g written data w =
      write_loop call bytes g' written' data' (fwrite data' block_size w)"
    using wb by (subst write_loop.simps)
      (simp add: fill_block_0 [OF Suc.prems(2)] data'_def g'_def written'_def split_beta)
  also note ih
  finally show ?case
    using ld by (simp add: g fwrite_def block_size_def)
qed

lemma write_random_bytes_to_stdout_Some:
  assumes "unat bytes \<le> 2 ^ 64 - 8192"
  shows "write_random_bytes_to_stdout ctor call seed bytes w =
     Some (w\<lparr>stdout := stdout w @
       fst (generate call (1024 * ((unat bytes + 8191) div 8192)) (ctor seed))\<rparr>)"
  unfolding write_random_bytes_to_stdout_def Let_def
  by (rule write_loop_blocks [OF assms]) (simp_all add: block_size_def)

text \<open>
  A request above \<open>2 ^ 64 - 8192\<close>: the counter moves in steps of 8192, stays even
  when it wraps around, and so never reaches the odd number \<open>2 ^ 64 - 1\<close>.
\<close>

lemma write_loop_diverges:
  assumes "write_loop call bytes g written data w = Some y"
  shows "\<not> (bytes = - 1 \<and> even written)"
proof (rule write_loop.raw_induct
    [where P = "\<lambda>call bytes rng written data w y. \<not> (bytes = - 1 \<and> even written)", OF _ assms])
  fix loop :: "('a \<Rightarrow> u64 \<times> 'a) \<Rightarrow> u64 \<Rightarrow> 'a \<Rightarrow> u64 \<Rightarrow> u64 list \<Rightarrow> world \<Rightarrow> world option"
  fix call bytes rng written data w y
  assume IH: "\<And>call bytes rng written data w y.
      loop call bytes rng written data w = Some y \<Longrightarrow> \<not> (bytes = - 1 \<and> even written)"
  assume step: "(if written < bytes
      then let (data, rng) = fill_block call 0 data rng;
               w = fwrite data block_size w;
               written = written + sizeof_uint64_t * block_size
           in loop call bytes rng written data w
      else Some w) = Some y"
  show "\<not> (bytes = - 1 \<and> even written)"
  proof
    assume a: "bytes = - 1 \<and> even written"
    then have "written \<noteq> - 1" by auto
    then have lt: "written < bytes"
      using a by (simp add: word_order.not_eq_extremum)
    have ev: "even (written + sizeof_uint64_t * block_size)"
      using a by (simp add: sizeof_uint64_t_def block_size_def)
    from step lt have "loop call bytes (snd (fill_block call 0 data rng))
        (written + sizeof_uint64_t * block_size) (fst (fill_block call 0 data rng))
        (fwrite (fst (fill_block call 0 data rng)) block_size w) = Some y"
      by (simp add: split_beta Let_def)
    from IH [OF this] a ev show False by simp
  qed
qed

lemma write_random_bytes_to_stdout_max:
  "write_random_bytes_to_stdout ctor call seed (- 1) w = None"
proof (cases "write_random_bytes_to_stdout ctor call seed (- 1) w")
  case None
  then show ?thesis .
next
  case (Some y)
  then have "write_loop call (- 1) (ctor seed) 0 (replicate (unat block_size) 0) w = Some y"
    by (simp add: write_random_bytes_to_stdout_def)
  from write_loop_diverges [OF this] show ?thesis by simp
qed

text \<open>
  Claim C10, as the code has it: for every seed and every requested count \<open>bytes\<close> up to
  \<open>2 ^ 64 - 8192\<close>, \<^verbatim>\<open>write_random_bytes_to_stdout\<close> returns after writing whole
  blocks of 1024 values, the first outputs of the generator, and the number of bytes
  written is the smallest multiple of 8192 that is at least \<open>bytes\<close>: nothing for 0,
  more than requested when \<open>bytes\<close> is no multiple of 8192.
\<close>

theorem write_random_bytes_to_stdout_blocks:
  "unat bytes \<le> 2 ^ 64 - 8192 \<Longrightarrow>
   (let k = (unat bytes + 8191) div 8192;
        vs = fst (generate call (1024 * k) (ctor seed))
    in write_random_bytes_to_stdout ctor call seed bytes w = Some (w\<lparr>stdout := stdout w @ vs\<rparr>) \<and>
       unat sizeof_uint64_t * length vs = 8192 * k \<and>
       unat bytes \<le> 8192 * k \<and> 8192 * k < unat bytes + 8192)"
  unfolding Let_def
  by (simp add: write_random_bytes_to_stdout_Some length_generate sizeof_uint64_t_def
      blocks_bounds)

theorem write_random_bytes_to_stdout_blocks_witness:
  "unat (1 :: u64) \<le> 2 ^ 64 - 8192 \<and>
   write_random_bytes_to_stdout SplitMix64_ctor SplitMix64_call 123 1 \<lparr>stdout = [], stderr = []\<rparr> =
     Some \<lparr>stdout = fst (generate SplitMix64_call 1024 (SplitMix64_ctor 123)), stderr = []\<rparr> \<and>
   unat sizeof_uint64_t * length (fst (generate SplitMix64_call 1024 (SplitMix64_ctor 123))) = 8192"
  using write_random_bytes_to_stdout_blocks
    [where bytes = 1 and ctor = SplitMix64_ctor and call = SplitMix64_call and seed = 123
      and w = "\<lparr>stdout = [], stderr = []\<rparr>"]
  by (simp add: Let_def)

text \<open>
  Claim C10 as stated fails at the request \<open>2 ^ 64 - 1\<close>: the smallest multiple of 8192
  that is at least the request is \<open>2 ^ 64\<close>, the counter wraps around before it, and the
  loop never stops.
\<close>

theorem write_random_bytes_to_stdout_never_stops:
  "write_random_bytes_to_stdout SplitMix64_ctor SplitMix64_call 0 0xFFFFFFFFFFFFFFFF
     \<lparr>stdout = [], stderr = []\<rparr> = None"
proof -
  have "(0xFFFFFFFFFFFFFFFF :: u64) = - 1"
    by simp
  then show ?thesis
    by (simp only: write_random_bytes_to_stdout_max)
qed

section \<open>The exit status of the program\<close>

declare decimal.simps [simp del]

lemma unat_mebibytes: "unat (1024 * 1024 * x :: u64) \<le> 2 ^ 64 - 8192"
proof -
  have "unat (1024 * 1024 * x :: u64) = (1048576 * unat x) mod (1048576 * 17592186044416)"
    by (simp add: unat_word_ariths)
  also have "\<dots> = 1048576 * (unat x mod 17592186044416)"
    by (simp only: mult_mod_right)
  also have "\<dots> \<le> 1048576 * 17592186044415"
  proof -
    have "unat x mod 17592186044416 < 17592186044416" by simp
    then have "unat x mod 17592186044416 \<le> 17592186044415" by linarith
    then show ?thesis by (rule mult_le_mono2)
  qed
  finally show ?thesis by simp
qed

lemma run_selected_Some:
  assumes "\<And>entry w. entry \<in> set entries \<Longrightarrow> \<exists>w'. func entry seed bytes w = Some w'"
  shows "\<exists>w'. run_selected entries rng seed bytes w = Some (EXIT_SUCCESS, w')"
  using assms
proof (induction entries)
  case Nil
  show ?case by simp
next
  case (Cons entry entries)
  show ?case
  proof (cases "name entry = rng")
    case True
    define w1 where "w1 =
      fprintf_stderr (''bytes: '' @ decimal (unat bytes) @ newline)
        (fprintf_stderr (''seed: '' @ decimal (unat seed) @ newline)
          (fprintf_stderr (''rng: '' @ rng @ newline) w))"
    obtain w' where "func entry seed bytes w1 = Some w'"
      using Cons.prems [of entry w1] by auto
    with True have "run_selected (entry # entries) rng seed bytes w = Some (EXIT_SUCCESS, w')"
      by (simp add: Let_def w1_def)
    then show ?thesis ..
  next
    case False
    have "\<exists>w'. run_selected entries rng seed bytes w = Some (EXIT_SUCCESS, w')"
      by (rule Cons.IH) (simp add: Cons.prems)
    with False show ?thesis by simp
  qed
qed

lemma run_selected_registry:
  assumes "unat bytes \<le> 2 ^ 64 - 8192"
  shows "\<exists>w'. run_selected registry rng seed bytes w = Some (EXIT_SUCCESS, w')"
proof (rule run_selected_Some)
  fix entry w
  assume "entry \<in> set registry"
  then show "\<exists>w'. func entry seed bytes w = Some w'"
    by (auto simp add: registry_def write_random_bytes_to_stdout_Some [OF assms])
qed

text \<open>
  With two or three arguments the program returns, and with \<^verbatim>\<open>EXIT_SUCCESS\<close>,
  whether the name is registered or not.
\<close>

lemma main_exit_success:
  assumes "2 \<le> length args" and "length args \<le> 3"
  shows "\<exists>w'. main strtoull prog args w = Some (EXIT_SUCCESS, w')"
proof -
  have argc: "(1 + int (length args) < 3 \<or> 4 < 1 + int (length args)) = False"
    using assms by simp
  obtain w' where "run_selected registry (args ! 0)
      (if 1 + int (length args) = 4 then strtoull (args ! 2) else 1234567890)
      (1024 * 1024 * strtoull (args ! 1)) w = Some (EXIT_SUCCESS, w')"
    using run_selected_registry [OF unat_mebibytes] by blast
  then have "main strtoull prog args w = Some (EXIT_SUCCESS, w')"
    unfolding main_def Let_def by (simp only: argc if_False)
  then show ?thesis ..
qed

text \<open>With fewer or more arguments it prints the usage and returns \<^verbatim>\<open>EXIT_FAILURE\<close>.\<close>

lemma main_exit_failure:
  assumes "length args < 2 \<or> 3 < length args"
  shows "\<exists>w'. main strtoull prog args w = Some (EXIT_FAILURE, w')"
  using assms by (auto simp add: main_def Let_def)

text \<open>
  Claim C8 says that a name that is not registered gives a diagnostic and an error exit
  status. The code prints the diagnostic and returns \<^verbatim>\<open>EXIT_SUCCESS\<close>: here with
  the name \<open>mt19937\<close>, whatever \<^verbatim>\<open>strtoull\<close> makes of the count.
\<close>

theorem main_unknown_rng_exit_success:
  "main strtoull ''example_prng_dieharder'' [''mt19937'', ''1''] w =
     Some (EXIT_SUCCESS,
       w\<lparr>stderr := stderr w @ ''unknown rng '' @ [CHR 0x27] @ ''mt19937'' @ [CHR 0x27, CHR 0x0A]\<rparr>)"
  by (simp add: main_def registry_def fprintf_stderr_def newline_def Let_def)

end
